theory Spec2Isabelle
  imports Complex_Main
begin

section \<open>Window functions of \<^verbatim>\<open>notebooks/window\<close>\<close>

text \<open>
  The module \<^verbatim>\<open>window.py\<close> is a catalog of nineteen window generators written with
  numpy; \<^verbatim>\<open>compare.py\<close> evaluates two of them at the same length and plots both.
  Each generator is embedded here as a function from the requested length (a Python
  \<^verbatim>\<open>int\<close>, so an \<open>int\<close>) and the symmetry flag to either the exception the call
  raises or the array it returns.
\<close>

subsection \<open>Exceptions\<close>

text \<open>
  The exceptions the generators can raise: \<^verbatim>\<open>np.ones\<close> and \<^verbatim>\<open>np.zeros\<close> refuse a negative
  dimension (ValueError), an index outside an array is an IndexError, a Python scalar
  division by zero is a ZeroDivisionError (an array division is not: numpy returns inf or
  nan there), and arithmetic on \<^verbatim>\<open>None\<close> is a TypeError.
\<close>

datatype py_error = ValueError | IndexError | ZeroDivisionError | TypeError

subsection \<open>Double precision values\<close>

text \<open>
  A sample is a float64. The model keeps the special values of IEEE 754 (the two
  infinities and NaN) and takes every finite value as the real number it stands for:
  arithmetic on finite values is exact, so rounding is not modelled, and zero carries no
  sign (a nonzero dividend over zero gives the infinity of the dividend's sign). Sums,
  products and quotients are taken to stay in range; the exponential is not, and
  overflows and underflows as \<^verbatim>\<open>np.exp\<close> does.
\<close>

datatype float64 = Fin real | PInf | NInf | NaN

fun is_finite :: "float64 \<Rightarrow> bool" where
  "is_finite (Fin x) = True"
| "is_finite PInf = False"
| "is_finite NInf = False"
| "is_finite NaN = False"

instantiation float64 :: "{plus, minus, uminus, times, inverse, abs, ord}"
begin

fun uminus_float64 :: "float64 \<Rightarrow> float64" where
  "uminus_float64 (Fin x) = Fin (- x)"
| "uminus_float64 PInf = NInf"
| "uminus_float64 NInf = PInf"
| "uminus_float64 NaN = NaN"

fun plus_float64 :: "float64 \<Rightarrow> float64 \<Rightarrow> float64" where
  "plus_float64 (Fin x) (Fin y) = Fin (x + y)"
| "plus_float64 (Fin x) PInf = PInf"
| "plus_float64 (Fin x) NInf = NInf"
| "plus_float64 PInf (Fin y) = PInf"
| "plus_float64 PInf PInf = PInf"
| "plus_float64 PInf NInf = NaN"
| "plus_float64 NInf (Fin y) = NInf"
| "plus_float64 NInf NInf = NInf"
| "plus_float64 NInf PInf = NaN"
| "plus_float64 NaN b = NaN"
| "plus_float64 a NaN = NaN"

definition minus_float64 :: "float64 \<Rightarrow> float64 \<Rightarrow> float64" where
  "minus_float64 a b = a + (- b)"

fun times_float64 :: "float64 \<Rightarrow> float64 \<Rightarrow> float64" where
  "times_float64 (Fin x) (Fin y) = Fin (x * y)"
| "times_float64 (Fin x) PInf = (if x = 0 then NaN else if 0 < x then PInf else NInf)"
| "times_float64 (Fin x) NInf = (if x = 0 then NaN else if 0 < x then NInf else PInf)"
| "times_float64 PInf (Fin y) = (if y = 0 then NaN else if 0 < y then PInf else NInf)"
| "times_float64 NInf (Fin y) = (if y = 0 then NaN else if 0 < y then NInf else PInf)"
| "times_float64 PInf PInf = PInf"
| "times_float64 PInf NInf = NInf"
| "times_float64 NInf PInf = NInf"
| "times_float64 NInf NInf = PInf"
| "times_float64 NaN b = NaN"
| "times_float64 a NaN = NaN"

fun divide_float64 :: "float64 \<Rightarrow> float64 \<Rightarrow> float64" where
  "divide_float64 (Fin x) (Fin y) =
     (if y = 0 then (if x = 0 then NaN else if 0 < x then PInf else NInf)
      else Fin (x / y))"
| "divide_float64 (Fin x) PInf = Fin 0"
| "divide_float64 (Fin x) NInf = Fin 0"
| "divide_float64 PInf (Fin y) = (if 0 \<le> y then PInf else NInf)"
| "divide_float64 NInf (Fin y) = (if 0 \<le> y then NInf else PInf)"
| "divide_float64 PInf PInf = NaN"
| "divide_float64 PInf NInf = NaN"
| "divide_float64 NInf PInf = NaN"
| "divide_float64 NInf NInf = NaN"
| "divide_float64 NaN b = NaN"
| "divide_float64 a NaN = NaN"

definition inverse_float64 :: "float64 \<Rightarrow> float64" where
  "inverse_float64 a = divide (Fin 1) a"

fun abs_float64 :: "float64 \<Rightarrow> float64" where
  "abs_float64 (Fin x) = Fin \<bar>x\<bar>"
| "abs_float64 PInf = PInf"
| "abs_float64 NInf = PInf"
| "abs_float64 NaN = NaN"

text \<open>Comparisons are IEEE comparisons: every comparison with NaN is false.\<close>

fun less_float64 :: "float64 \<Rightarrow> float64 \<Rightarrow> bool" where
  "less_float64 (Fin x) (Fin y) = (x < y)"
| "less_float64 (Fin x) PInf = True"
| "less_float64 NInf (Fin y) = True"
| "less_float64 NInf PInf = True"
| "less_float64 a b = False"

fun less_eq_float64 :: "float64 \<Rightarrow> float64 \<Rightarrow> bool" where
  "less_eq_float64 (Fin x) (Fin y) = (x \<le> y)"
| "less_eq_float64 (Fin x) PInf = True"
| "less_eq_float64 NInf (Fin y) = True"
| "less_eq_float64 NInf PInf = True"
| "less_eq_float64 PInf PInf = True"
| "less_eq_float64 NInf NInf = True"
| "less_eq_float64 a b = False"

instance ..

end

text \<open>\<^verbatim>\<open>np.cos\<close> and \<^verbatim>\<open>np.sin\<close>: the sine and cosine of an infinity are NaN.\<close>

fun fcos :: "float64 \<Rightarrow> float64" where
  "fcos (Fin x) = Fin (cos x)"
| "fcos a = NaN"

fun fsin :: "float64 \<Rightarrow> float64" where
  "fsin (Fin x) = Fin (sin x)"
| "fsin a = NaN"

text \<open>
  \<^verbatim>\<open>np.exp\<close> leaves the range of float64 at moderate arguments: above the largest
  finite double (an argument over about 709.78) the result is inf, and below half the
  smallest positive double (an argument under about -745.13) it is 0.
\<close>

definition max_float :: real where
  "max_float = (2 - 1 / 2 ^ 52) * 2 ^ 1023"

fun fexp :: "float64 \<Rightarrow> float64" where
  "fexp (Fin x) =
     (if max_float < exp x then PInf
      else if exp x < 1 / 2 ^ 1075 then Fin 0
      else Fin (exp x))"
| "fexp PInf = PInf"
| "fexp NInf = Fin 0"
| "fexp NaN = NaN"

text \<open>\<^verbatim>\<open>x**k\<close> for a literal exponent \<open>k\<close>.\<close>

primrec fpow :: "float64 \<Rightarrow> nat \<Rightarrow> float64" where
  "fpow x 0 = Fin 1"
| "fpow x (Suc k) = x * fpow x k"

text \<open>The conversion of an integer (an element of an int64 array, or a Python int).\<close>

definition fl :: "int \<Rightarrow> float64" where
  "fl i = Fin (real_of_int i)"

text \<open>A Python \<^verbatim>\<open>bool\<close> in arithmetic is the integer 0 or 1.\<close>

definition b2i :: "bool \<Rightarrow> int" where
  "b2i b = (if b then 1 else 0)"

subsection \<open>Arrays\<close>

text \<open>
  \<^verbatim>\<open>np.arange(N)\<close> is the index sequence \<open>0, ..., N - 1\<close>, empty when \<open>N \<le> 0\<close>.
  \<^verbatim>\<open>np.ones(N)\<close> and \<^verbatim>\<open>np.zeros(N)\<close> raise ValueError for a negative \<open>N\<close>.
\<close>

definition arange :: "int \<Rightarrow> int list" where
  "arange N = map int [0..<nat N]"

definition np_ones :: "int \<Rightarrow> py_error + float64 list" where
  "np_ones N = (if N < 0 then Inl ValueError else Inr (replicate (nat N) (Fin 1)))"

definition np_zeros :: "int \<Rightarrow> py_error + float64 list" where
  "np_zeros N = (if N < 0 then Inl ValueError else Inr (replicate (nat N) (Fin 0)))"

text \<open>
  \<^verbatim>\<open>w[i] = v\<close> for an integer index: a negative index counts from the end, and an index
  outside the array raises IndexError.
\<close>

definition setitem :: "float64 list \<Rightarrow> int \<Rightarrow> float64 \<Rightarrow> py_error + float64 list" where
  "setitem w i v =
     (let len = int (length w); j = (if i < 0 then i + len else i)
      in if 0 \<le> j \<and> j < len then Inr (w[nat j := v]) else Inl IndexError)"

text \<open>
  \<^verbatim>\<open>w[mask] = vals\<close> where the mask and the values are computed elementwise from an
  array \<open>n\<close> of the same length: the elements under the mask are overwritten.
\<close>

definition masked_assign ::
  "(float64 \<Rightarrow> bool) \<Rightarrow> (float64 \<Rightarrow> float64) \<Rightarrow> float64 list \<Rightarrow> float64 list \<Rightarrow> float64 list" where
  "masked_assign msk vals n w = map2 (\<lambda>x y. if msk x then vals x else y) n w"

subsection \<open>The resolved length\<close>

text \<open>
  The line \<^verbatim>\<open>N = N - 1 if sym else N\<close>, which most generators run after building the
  index sequence. (The flag \<^verbatim>\<open>sym\<close> is written \<open>symm\<close> throughout: \<open>sym\<close> is a constant
  of the logic.)
\<close>

definition additive_length :: "int \<Rightarrow> bool \<Rightarrow> int" where
  "additive_length N symm = (if symm then N - 1 else N)"

subsection \<open>Non-parametric windows\<close>

text \<open>\<^verbatim>\<open>def boxcar(N, sym=True): return np.ones(N)\<close>\<close>

definition boxcar :: "int \<Rightarrow> bool \<Rightarrow> py_error + float64 list" where
  "boxcar N symm = np_ones N"

text \<open>
  \<^verbatim>\<open>return (2.0 / N) * ((N / 2) - abs(n - N / 2))\<close>: the factor \<^verbatim>\<open>2.0 / N\<close> is a division of
  Python scalars, which raises when the resolved length is zero.
\<close>

definition bartlett :: "int \<Rightarrow> bool \<Rightarrow> py_error + float64 list" where
  "bartlett N symm =
     (let n = arange N; N = additive_length N symm in
      if N = 0 then Inl ZeroDivisionError
      else Inr (map (\<lambda>i. Fin (2.0 / real_of_int N) *
                   (Fin (real_of_int N / 2) - \<bar>fl i - Fin (real_of_int N / 2)\<bar>)) n))"

text \<open>\<^verbatim>\<open>return 0.62 - 0.48 * abs(n / N - 0.5) - 0.38 * np.cos(2 * np.pi * n / N)\<close>\<close>

definition barthann :: "int \<Rightarrow> bool \<Rightarrow> py_error + float64 list" where
  "barthann N symm =
     (let n = arange N; N = additive_length N symm in
      Inr (map (\<lambda>i. Fin 0.62 - Fin 0.48 * \<bar>fl i / fl N - Fin 0.5\<bar>
                   - Fin 0.38 * fcos (Fin (2 * pi) * fl i / fl N)) n))"

text \<open>
  \<^verbatim>\<open>
  n = np.arange(N, dtype=float)
  w = np.zeros(N, dtype=float)
  n = 2 * n / (N-sym) - 1  # [0, N) -> [-1, 1]
  w[abs(n) < 1/2 ] = 1 - 6 * n[abs(n) < 1/2]**2 + 6 * abs(n[abs(n) < 1/2])**3
  w[abs(n) >= 1/2] = 2 * (1 - abs(n[abs(n) >= 1/2]))**3
  return w\<close>
\<close>

definition parzen :: "int \<Rightarrow> bool \<Rightarrow> py_error + float64 list" where
  "parzen N symm =
     (let n = map fl (arange N) in
      case np_zeros N of
        Inl e \<Rightarrow> Inl e
      | Inr w \<Rightarrow>
          (let n = map (\<lambda>x. Fin 2 * x / fl (N - b2i symm) - Fin 1) n;
               w = masked_assign (\<lambda>x. \<bar>x\<bar> < Fin (1 / 2))
                     (\<lambda>x. Fin 1 - Fin 6 * fpow x 2 + Fin 6 * fpow \<bar>x\<bar> 3) n w;
               w = masked_assign (\<lambda>x. Fin (1 / 2) \<le> \<bar>x\<bar>)
                     (\<lambda>x. Fin 2 * fpow (Fin 1 - \<bar>x\<bar>) 3) n w
           in Inr w))"

text \<open>\<^verbatim>\<open>return 1 - ((n - (N - 1 - sym) / 2) / ((N + 1 - sym) / 2))**2\<close>\<close>

definition welch :: "int \<Rightarrow> bool \<Rightarrow> py_error + float64 list" where
  "welch N symm =
     (let n = arange N in
      Inr (map (\<lambda>i. Fin 1 - fpow ((fl i - Fin (real_of_int (N - 1 - b2i symm) / 2))
                                   / Fin (real_of_int (N + 1 - b2i symm) / 2)) 2) n))"

text \<open>\<^verbatim>\<open>N = N + (not sym); return np.sin(np.pi * (n + 0.5) / N)\<close>\<close>

definition cosine :: "int \<Rightarrow> bool \<Rightarrow> py_error + float64 list" where
  "cosine N symm =
     (let n = arange N; N = N + b2i (\<not> symm) in
      Inr (map (\<lambda>i. fsin (Fin pi * (fl i + Fin 0.5) / fl N)) n))"

text \<open>
  \<^verbatim>\<open>
  N = (N - 1 if sym else N) / 2
  return (1 - abs(n / N - 1)) * np.cos(np.pi * abs(n / N - 1)) + (1.0 / np.pi) * np.sin(np.pi * abs(n / N - 1))\<close>
\<close>

definition bohman :: "int \<Rightarrow> bool \<Rightarrow> py_error + float64 list" where
  "bohman N symm =
     (let n = arange N; N = Fin (real_of_int (additive_length N symm) / 2) in
      Inr (map (\<lambda>i. (Fin 1 - \<bar>fl i / N - Fin 1\<bar>) * fcos (Fin pi * \<bar>fl i / N - Fin 1\<bar>)
                   + Fin (1.0 / pi) * fsin (Fin pi * \<bar>fl i / N - Fin 1\<bar>)) n))"

text \<open>
  \<^verbatim>\<open>
  n = np.arange(N)
  N = N - 1 if sym else N
  w = np.pi * (2 * n / N - 1)
  w = np.sin(w) / (w + 1e-12)
  w[N//2] = 1
  return w\<close>
\<close>

definition lanczos :: "int \<Rightarrow> bool \<Rightarrow> py_error + float64 list" where
  "lanczos N symm =
     (let n = arange N; N = additive_length N symm;
          w = map (\<lambda>i. Fin pi * (fl (2 * i) / fl N - Fin 1)) n;
          w = map (\<lambda>x. fsin x / (x + Fin (1 / 10 ^ 12))) w
      in setitem w (N div 2) (Fin 1))"

text \<open>\<^verbatim>\<open>return 0.50 - 0.50 * np.cos(2 * np.pi * n / N)\<close>\<close>

definition hann :: "int \<Rightarrow> bool \<Rightarrow> py_error + float64 list" where
  "hann N symm =
     (let n = arange N; N = additive_length N symm in
      Inr (map (\<lambda>i. Fin 0.50 - Fin 0.50 * fcos (Fin (2 * pi) * fl i / fl N)) n))"

text \<open>\<^verbatim>\<open>return 0.54 - 0.46 * np.cos(2 * np.pi * n / N)\<close>\<close>

definition hamming :: "int \<Rightarrow> bool \<Rightarrow> py_error + float64 list" where
  "hamming N symm =
     (let n = arange N; N = additive_length N symm in
      Inr (map (\<lambda>i. Fin 0.54 - Fin 0.46 * fcos (Fin (2 * pi) * fl i / fl N)) n))"

text \<open>\<^verbatim>\<open>return 0.42 - 0.50 * np.cos(2 * np.pi * n / N) + 0.08 * np.cos(4 * np.pi * n / N)\<close>\<close>

definition blackman :: "int \<Rightarrow> bool \<Rightarrow> py_error + float64 list" where
  "blackman N symm =
     (let n = arange N; N = additive_length N symm in
      Inr (map (\<lambda>i. Fin 0.42 - Fin 0.50 * fcos (Fin (2 * pi) * fl i / fl N)
                   + Fin 0.08 * fcos (Fin (4 * pi) * fl i / fl N)) n))"

definition blackmanharris :: "int \<Rightarrow> bool \<Rightarrow> py_error + float64 list" where
  "blackmanharris N symm =
     (let n = arange N; N = additive_length N symm in
      Inr (map (\<lambda>i. Fin 0.35875
                   - Fin 0.48829 * fcos (Fin (2 * pi) * fl i / fl N)
                   + Fin 0.14128 * fcos (Fin (4 * pi) * fl i / fl N)
                   - Fin 0.01168 * fcos (Fin (6 * pi) * fl i / fl N)) n))"

definition blackmannuttall :: "int \<Rightarrow> bool \<Rightarrow> py_error + float64 list" where
  "blackmannuttall N symm =
     (let n = arange N; N = additive_length N symm in
      Inr (map (\<lambda>i. Fin 0.3635819
                   - Fin 0.4891775 * fcos (Fin (2 * pi) * fl i / fl N)
                   + Fin 0.1365995 * fcos (Fin (4 * pi) * fl i / fl N)
                   - Fin 0.0106411 * fcos (Fin (6 * pi) * fl i / fl N)) n))"

text \<open>
  \<^verbatim>\<open>def kaiserbessel(N, sym=None)\<close> runs \<^verbatim>\<open>N = N - sym\<close>: the flag is a \<open>bool option\<close>,
  \<open>None\<close> when the caller leaves it out, and the subtraction raises TypeError on it.
\<close>

definition kaiserbessel :: "int \<Rightarrow> bool option \<Rightarrow> py_error + float64 list" where
  "kaiserbessel N symm =
     (let n = arange N in
      case symm of
        None \<Rightarrow> Inl TypeError
      | Some s \<Rightarrow>
          (let N = N - b2i s in
           Inr (map (\<lambda>i. Fin 0.402
                        - Fin 0.498 * fcos (Fin (2 * pi) * fl i / fl N)
                        + Fin 0.098 * fcos (Fin (4 * pi) * fl i / fl N)
                        - Fin 0.001 * fcos (Fin (6 * pi) * fl i / fl N)) n)))"

definition flattop :: "int \<Rightarrow> bool \<Rightarrow> py_error + float64 list" where
  "flattop N symm =
     (let n = arange N; N = additive_length N symm in
      Inr (map (\<lambda>i. Fin 0.21557895
                   - Fin 0.416631580 * fcos (Fin (2 * pi) * fl i / fl N)
                   + Fin 0.277263158 * fcos (Fin (4 * pi) * fl i / fl N)
                   - Fin 0.083578947 * fcos (Fin (6 * pi) * fl i / fl N)
                   + Fin 0.006947368 * fcos (Fin (8 * pi) * fl i / fl N)) n))"

subsection \<open>Parametric windows\<close>

text \<open>
  The shape parameters \<^verbatim>\<open>alpha\<close> and \<^verbatim>\<open>std\<close> are Python floats, never checked.
  \<^verbatim>\<open>N = (N - 1 if sym else N) / 2; return np.exp(-alpha * abs(n - N) / N)\<close>
\<close>

definition exponential :: "int \<Rightarrow> bool \<Rightarrow> float64 \<Rightarrow> py_error + float64 list" where
  "exponential N symm alpha =
     (let n = arange N; N = Fin (real_of_int (additive_length N symm) / 2) in
      Inr (map (\<lambda>i. fexp ((- alpha) * \<bar>fl i - N\<bar> / N)) n))"

text \<open>\<^verbatim>\<open>return np.exp(-0.5 * ((n - N)/(std * N))**2)\<close>\<close>

definition gaussian :: "int \<Rightarrow> bool \<Rightarrow> float64 \<Rightarrow> py_error + float64 list" where
  "gaussian N symm std =
     (let n = arange N; N = Fin (real_of_int (additive_length N symm) / 2) in
      Inr (map (\<lambda>i. fexp (Fin (- 0.5) * fpow ((fl i - N) / (std * N)) 2)) n))"

text \<open>\<^verbatim>\<open>return 0.5 * (1 - np.cos(np.pi * n / N)) * np.exp(-alpha * abs(n - N) / N)\<close>\<close>

definition hannpoisson :: "int \<Rightarrow> bool \<Rightarrow> float64 \<Rightarrow> py_error + float64 list" where
  "hannpoisson N symm alpha =
     (let n = arange N; N = Fin (real_of_int (additive_length N symm) / 2) in
      Inr (map (\<lambda>i. Fin 0.5 * (Fin 1 - fcos (Fin pi * fl i / N))
                   * fexp ((- alpha) * \<bar>fl i - N\<bar> / N)) n))"

text \<open>
  \<^verbatim>\<open>
  w = 0.5 * (1 + np.cos(np.pi * (abs(n - N) - alpha * N)/((1 - alpha) * N)))
  w[abs(n - N) < alpha * N] = 1
  return w\<close>
\<close>

definition tukey :: "int \<Rightarrow> bool \<Rightarrow> float64 \<Rightarrow> py_error + float64 list" where
  "tukey N symm alpha =
     (let n = arange N; N = Fin (real_of_int (additive_length N symm) / 2);
          w = map (\<lambda>i. Fin 0.5 * (Fin 1 + fcos (Fin pi * (\<bar>fl i - N\<bar> - alpha * N)
                                                  / ((Fin 1 - alpha) * N)))) n;
          w = masked_assign (\<lambda>x. \<bar>x - N\<bar> < alpha * N) (\<lambda>x. Fin 1) (map fl n) w
      in Inr w)"

subsection \<open>The comparison utility\<close>

text \<open>
  \<^verbatim>\<open>compare\<close> draws on the current matplotlib figure. The figure is a record of what was
  drawn; \<^verbatim>\<open>plt.plot(x, y)\<close> adds a line and raises ValueError when \<open>x\<close> and \<open>y\<close> differ
  in length. An exception ends the call, and the figure it leaves behind is dropped.
  \<^verbatim>\<open>
  sample_idx = list(range(N))
  test = windowTest(N, sym=sym)
  plt.plot(sample_idx, test)
  reference = windowReference(N, sym=sym)
  plt.plot(sample_idx, reference)
  plt.legend(['Test', 'Reference'])
  plt.xlabel('$n$')
  plt.ylabel('w[n]')
  return test, reference\<close>
\<close>

record figure =
  lines :: "(int list \<times> float64 list) list"
  legend :: "string list"
  xlabel :: string
  ylabel :: string

definition plt_plot :: "int list \<Rightarrow> float64 list \<Rightarrow> figure \<Rightarrow> py_error + figure" where
  "plt_plot x y fig =
     (if length x \<noteq> length y then Inl ValueError
      else Inr (fig\<lparr>lines := lines fig @ [(x, y)]\<rparr>))"

definition compare ::
  "int \<Rightarrow> (int \<Rightarrow> bool \<Rightarrow> py_error + float64 list) \<Rightarrow> (int \<Rightarrow> bool \<Rightarrow> py_error + float64 list)
     \<Rightarrow> bool \<Rightarrow> figure \<Rightarrow> py_error + ((float64 list \<times> float64 list) \<times> figure)" where
  "compare N windowTest windowReference symm fig =
     (let sample_idx = arange N in
      case windowTest N symm of
        Inl e \<Rightarrow> Inl e
      | Inr test \<Rightarrow>
          (case plt_plot sample_idx test fig of
             Inl e \<Rightarrow> Inl e
           | Inr fig \<Rightarrow>
               (case windowReference N symm of
                  Inl e \<Rightarrow> Inl e
                | Inr reference \<Rightarrow>
                    (case plt_plot sample_idx reference fig of
                       Inl e \<Rightarrow> Inl e
                     | Inr fig \<Rightarrow>
                         Inr ((test, reference),
                              fig\<lparr>legend := [''Test'', ''Reference''],
                                  xlabel := ''$n$'', ylabel := ''w[n]''\<rparr>)))))"

subsection \<open>Comparing samples\<close>

text \<open>
  Two samples agree within a tolerance when both are finite and differ by at most the
  tolerance; a call returns finite samples when it returns and none is an infinity or NaN.
\<close>

definition isclose :: "real \<Rightarrow> float64 \<Rightarrow> float64 \<Rightarrow> bool" where
  "isclose tol a b = (case (a, b) of (Fin x, Fin y) \<Rightarrow> \<bar>x - y\<bar> \<le> tol | _ \<Rightarrow> False)"

text \<open>
  \<^verbatim>\<open>a == b\<close> on float64 is the IEEE comparison: NaN equals nothing, itself included. Two
  samples are the same sample when they compare equal or are both NaN.
\<close>

fun feq :: "float64 \<Rightarrow> float64 \<Rightarrow> bool" where
  "feq (Fin x) (Fin y) = (x = y)"
| "feq PInf PInf = True"
| "feq NInf NInf = True"
| "feq a b = False"

fun is_nan :: "float64 \<Rightarrow> bool" where
  "is_nan NaN = True"
| "is_nan a = False"

definition same_sample :: "float64 \<Rightarrow> float64 \<Rightarrow> bool" where
  "same_sample a b = (feq a b \<or> is_nan a \<and> is_nan b)"

definition returns_finite :: "py_error + float64 list \<Rightarrow> bool" where
  "returns_finite r = (case r of Inl e \<Rightarrow> False | Inr w \<Rightarrow> list_all is_finite w)"

subsection \<open>Relating calls\<close>

text \<open>
  Three notions for stating how calls relate: \<open>returns_length r N\<close> says that a call
  which returns, returns \<open>max(N, 0)\<close> samples; \<open>first_n N w\<close> is the slice \<^verbatim>\<open>w[:N]\<close>; and
  \<open>periodic_is_prefix g N\<close> says that when the periodic call \<open>g(N, False)\<close> returns, the
  symmetric call \<open>g(N + 1, True)\<close> returns too and the former is the first \<open>N\<close> samples of
  the latter.
\<close>

definition returns_length :: "py_error + float64 list \<Rightarrow> int \<Rightarrow> bool" where
  "returns_length r N = (case r of Inl e \<Rightarrow> True | Inr w \<Rightarrow> int (length w) = max N 0)"

definition first_n :: "int \<Rightarrow> 'a list \<Rightarrow> 'a list" where
  "first_n N w = (if 0 \<le> N then take (nat N) w else take (nat (int (length w) + N)) w)"

definition periodic_is_prefix :: "(int \<Rightarrow> bool \<Rightarrow> py_error + float64 list) \<Rightarrow> int \<Rightarrow> bool" where
  "periodic_is_prefix g N =
     (case g N False of
        Inl e \<Rightarrow> True
      | Inr w \<Rightarrow> (case g (N + 1) True of Inl e \<Rightarrow> False | Inr w' \<Rightarrow> w = first_n N w'))"

section \<open>Properties\<close>

subsection \<open>Index sequences\<close>

lemma length_arange: "length (arange N) = nat N"
  by (simp add: arange_def)

lemma arange_nonpos: "N \<le> 0 \<Longrightarrow> arange N = []"
  by (simp add: arange_def)

lemma arange_1: "arange 1 = [0]"
  by (simp add: arange_def)

lemma arange_2: "arange 2 = [0, 1]"
  by (simp add: arange_def upt_rec numeral_2_eq_2)

lemma arange_hd: "1 \<le> N \<Longrightarrow> arange N ! 0 = 0"
  by (simp add: arange_def)

lemma arange_prefix: "0 \<le> N \<Longrightarrow> take (nat N) (arange (N + 1)) = arange N"
  by (simp add: arange_def take_map nat_add_distrib)

subsection \<open>The range of the exponential\<close>

text \<open>The exponential of a non-positive argument does not overflow.\<close>

lemma one_le_max_float: "1 \<le> max_float"
proof -
  have "(1::real) \<le> 2 ^ 1023"
    by (rule one_le_power) simp
  moreover have "(1::real) \<le> 2 - 1 / 2 ^ 52"
    by simp
  ultimately have "1 * 1 \<le> (2 - 1 / 2 ^ 52) * (2::real) ^ 1023"
    by (intro mult_mono) simp_all
  then show ?thesis
    by (simp add: max_float_def)
qed

lemma exp_nonpos_in_range: "x \<le> 0 \<Longrightarrow> \<not> max_float < exp x"
proof -
  assume "x \<le> 0"
  then have "exp x \<le> 1" by simp
  with one_le_max_float show ?thesis by linarith
qed

text \<open>An argument of 1000 overflows: \<^verbatim>\<open>np.exp(1000.0)\<close> is inf.\<close>

lemma max_float_less: "max_float < 2 ^ 1024"
proof -
  have "(2 - 1 / 2 ^ 52) * (2::real) ^ 1023 < 2 * 2 ^ 1023"
    by (intro mult_strict_right_mono) simp_all
  then show ?thesis
    by (simp add: max_float_def)
qed

lemma exp_1000_large: "(2::real) ^ 1024 \<le> exp 1000"
proof -
  have e2: "(5 / 2 :: real) \<le> exp 1"
    using exp_lower_Taylor_quadratic [of "1::real"] by simp
  have "(2::real) ^ 1024 \<le> (5 / 2) ^ 1000"
  proof -
    have "(2::real) ^ 1024 \<le> 32 ^ 250"
    proof -
      have "(32::real) ^ 250 = (2 ^ 5) ^ 250" by simp
      also have "\<dots> = 2 ^ 1250" by (simp only: power_mult [symmetric]) simp
      finally have "(32::real) ^ 250 = 2 ^ 1250" .
      moreover have "(2::real) ^ 1024 \<le> 2 ^ 1250"
        by (intro power_increasing) simp_all
      ultimately show ?thesis by simp
    qed
    also have "(32::real) ^ 250 \<le> ((5 / 2) ^ 4) ^ 250"
      by (intro power_mono) (simp_all add: power4_eq_xxxx)
    also have "\<dots> = (5 / 2 :: real) ^ 1000"
      by (simp only: power_mult [symmetric]) simp
    finally show ?thesis .
  qed
  also have "(5 / 2 :: real) ^ 1000 \<le> exp 1 ^ 1000"
    using e2 by (intro power_mono) simp_all
  also have "exp 1 ^ 1000 = exp (1000::real)"
    using exp_of_nat_mult [of 1000 "1::real"] by simp
  finally show ?thesis .
qed

lemma fexp_overflows: "fexp (Fin 1000) = PInf"
  using max_float_less exp_1000_large by simp

subsection \<open>Boxcar\<close>

text \<open>
  C10. The Boxcar output does not depend on the symmetry flag: for every \<open>N \<ge> 0\<close> and
  any two flag values, \<open>boxcar N b1\<close> and \<open>boxcar N b2\<close> are the same array, the all-ones
  sequence of length \<open>N\<close>.
\<close>

theorem boxcar_ignores_flag:
  "0 \<le> N \<Longrightarrow> boxcar N b1 = boxcar N b2 \<and> boxcar N b1 = Inr (replicate (nat N) (Fin 1))"
  by (simp add: boxcar_def np_ones_def)

theorem boxcar_ignores_flag_witness:
  "(0::int) \<le> 3 \<and> boxcar 3 True = boxcar 3 False \<and> boxcar 3 True = Inr [Fin 1, Fin 1, Fin 1]"
  using boxcar_ignores_flag [of 3 True False] by (auto simp add: numeral_3_eq_3)

subsection \<open>Lanczos\<close>

text \<open>
  C4. For the Lanczos window with \<open>symmetric = False\<close> and any \<open>N \<ge> 1\<close>, the call returns
  \<open>N\<close> samples and the one at index \<open>N // 2\<close> is exactly 1.0: the assignment
  \<^verbatim>\<open>w[N//2] = 1\<close> stores it, whatever the quotient computed there was.
\<close>

theorem lanczos_center_tap:
  "1 \<le> N \<Longrightarrow>
     \<exists>w. lanczos N False = Inr w \<and> length w = nat N \<and> w ! nat (N div 2) = Fin 1"
proof -
  assume N: "1 \<le> N"
  define w0 where "w0 = map (\<lambda>x. fsin x / (x + Fin (1 / 10 ^ 12)))
     (map (\<lambda>i. Fin pi * (fl (2 * i) / fl N - Fin 1)) (arange N))"
  have len: "length w0 = nat N"
    by (simp add: w0_def length_arange)
  have idx: "0 \<le> N div 2" "N div 2 < N"
    using N by simp_all
  have "lanczos N False = setitem w0 (N div 2) (Fin 1)"
    by (simp add: lanczos_def additive_length_def w0_def)
  also have "\<dots> = Inr (w0[nat (N div 2) := Fin 1])"
    using idx len N by (simp add: setitem_def)
  finally have "lanczos N False = Inr (w0[nat (N div 2) := Fin 1])" .
  moreover have "(w0[nat (N div 2) := Fin 1]) ! nat (N div 2) = Fin 1"
    using idx len by simp
  ultimately show ?thesis
    using len by simp
qed

theorem lanczos_center_tap_witness:
  "(1::int) \<le> 4 \<and> (\<exists>w. lanczos 4 False = Inr w \<and> length w = 4 \<and> w ! 2 = Fin 1)"
  using lanczos_center_tap [of 4] by simp

subsection \<open>Hann-Poisson\<close>

lemma map2_same: "map2 f (map g xs) (map h xs) = map (\<lambda>x. f (g x) (h x)) xs"
  by (induction xs) simp_all

text \<open>
  The raised cosine of \<^verbatim>\<open>hannpoisson\<close>, written over the halved length, is the Hann
  sample written over the whole length; when the length is zero both are NaN.
\<close>

lemma hann_factor:
  "Fin 0.5 * (Fin 1 - fcos (Fin pi * fl i / Fin (real_of_int E / 2)))
     = Fin 0.50 - Fin 0.50 * fcos (Fin (2 * pi) * fl i / fl E)"
  by (cases "E = 0"; cases "i = 0"; cases "0 < i")
     (simp_all add: fl_def minus_float64_def algebra_simps)

text \<open>
  As arrays of values, \<^verbatim>\<open>hannpoisson\<close> is the elementwise product of \<^verbatim>\<open>hann\<close> and
  \<^verbatim>\<open>exponential\<close>, for every length, flag and \<open>alpha\<close>: the exponential factor is the
  same expression in both.
\<close>

lemma hannpoisson_product_values:
  "\<exists>h e. hann N symm = Inr h \<and> exponential N symm alpha = Inr e \<and>
         hannpoisson N symm alpha = Inr (map2 (*) h e)"
proof -
  define E where "E = additive_length N symm"
  define h where "h = map (\<lambda>i. Fin 0.50 - Fin 0.50 * fcos (Fin (2 * pi) * fl i / fl E)) (arange N)"
  define e where "e = map (\<lambda>i. fexp ((- alpha) * \<bar>fl i - Fin (real_of_int E / 2)\<bar>
                                    / Fin (real_of_int E / 2))) (arange N)"
  have 1: "hann N symm = Inr h"
    by (simp only: hann_def Let_def h_def E_def)
  have 2: "exponential N symm alpha = Inr e"
    by (simp only: exponential_def Let_def e_def E_def)
  have "hannpoisson N symm alpha =
      Inr (map (\<lambda>i. Fin 0.5 * (Fin 1 - fcos (Fin pi * fl i / Fin (real_of_int E / 2)))
                   * fexp ((- alpha) * \<bar>fl i - Fin (real_of_int E / 2)\<bar>
                           / Fin (real_of_int E / 2))) (arange N))"
    by (simp only: hannpoisson_def Let_def E_def)
  also have "\<dots> = Inr (map2 (*) h e)"
    by (simp only: h_def e_def map2_same hann_factor)
  finally have 3: "hannpoisson N symm alpha = Inr (map2 (*) h e)" .
  from 1 2 3 show ?thesis by blast
qed

text \<open>
  C8 as stated: for every flag, every \<open>alpha\<close>, every \<open>N \<ge> 0\<close> and every index,
  \<^verbatim>\<open>hannpoisson(N, sym, alpha)[n] == hann(N, sym)[n] * exponential(N, sym, alpha)[n]\<close>.
  At \<open>N = 1\<close>, \<open>sym = True\<close> (and the default \<open>alpha = 1.0\<close>) all three calls return
  \<open>[nan]\<close>, and \<^verbatim>\<open>nan == nan * nan\<close> is false.
\<close>

theorem hannpoisson_product_nan:
  "hann 1 True = Inr [NaN] \<and> exponential 1 True (Fin 1) = Inr [NaN] \<and>
   hannpoisson 1 True (Fin 1) = Inr [NaN] \<and> \<not> feq NaN (NaN * NaN)"
  by (simp add: hann_def exponential_def hannpoisson_def arange_1 additive_length_def fl_def
        minus_float64_def)

lemma same_sample_refl: "same_sample a a"
  by (cases a) (simp_all add: same_sample_def)

lemma same_sample_not_nan: "same_sample a b \<Longrightarrow> \<not> is_nan b \<Longrightarrow> feq a b"
  by (simp add: same_sample_def)

text \<open>
  C8, amended. For every flag, every \<open>alpha\<close> and every \<open>N\<close>, the three calls return
  \<open>max(N, 0)\<close> samples each, and at every index \<^verbatim>\<open>hannpoisson(N, sym, alpha)[n]\<close> is the
  same sample as \<^verbatim>\<open>hann(N, sym)[n] * exponential(N, sym, alpha)[n]\<close>: the two compare equal
  with \<^verbatim>\<open>==\<close> wherever the product is not NaN, and where it is NaN (as at \<open>N = 1\<close>,
  \<open>sym = True\<close>) the Hann-Poisson sample is NaN too.
\<close>

theorem hannpoisson_product_up_to_nan:
  "\<exists>h e p. hann N symm = Inr h \<and> exponential N symm alpha = Inr e \<and>
           hannpoisson N symm alpha = Inr p \<and>
           length h = nat N \<and> length e = nat N \<and> length p = nat N \<and>
           list_all2 same_sample p (map2 (*) h e)"
proof -
  obtain h e where h: "hann N symm = Inr h" and e: "exponential N symm alpha = Inr e"
    and p: "hannpoisson N symm alpha = Inr (map2 (*) h e)"
    using hannpoisson_product_values [of N symm alpha] by blast
  have lh: "length h = nat N"
    using h by (auto simp add: hann_def Let_def length_arange)
  have le: "length e = nat N"
    using e by (auto simp add: exponential_def Let_def length_arange)
  have lp: "length (map2 (*) h e) = nat N"
    using lh le by simp
  have "list_all2 same_sample (map2 (*) h e) (map2 (*) h e)"
    by (simp add: list_all2_same same_sample_refl)
  with h e p lh le lp show ?thesis
    by blast
qed

text \<open>A call with finite samples: \<^verbatim>\<open>hannpoisson(2, False, 1.0)\<close> is \<open>[0.0, 1.0]\<close>.\<close>

lemma hannpoisson_2: "hannpoisson 2 False (Fin 1) = Inr [Fin 0, Fin 1]"
  by (simp add: hannpoisson_def arange_2 additive_length_def fl_def minus_float64_def
        exp_nonpos_in_range)

text \<open>
  A call with a NaN sample away from length 1: in \<^verbatim>\<open>hannpoisson(4, False, -1000.0)\<close> the
  exponential of the first sample overflows to inf and its raised cosine is 0.0, so the
  sample is \<open>0.0 * inf\<close>, NaN.
\<close>

lemma hannpoisson_overflow:
  "\<exists>w. hannpoisson 4 False (Fin (- 1000)) = Inr w \<and> length w = 4 \<and> w ! 0 = NaN"
proof -
  have "fexp (Fin (- (- 1000) * \<bar>0 - 4 / 2\<bar> / (4 / 2))) = PInf"
    using fexp_overflows by simp
  then show ?thesis
    by (simp add: hannpoisson_def Let_def additive_length_def length_arange arange_hd fl_def
          minus_float64_def del: fexp.simps)
qed

subsection \<open>The comparison utility\<close>

text \<open>An exception raised by the test generator propagates out of \<^verbatim>\<open>compare\<close>.\<close>

lemma compare_raises_test:
  "windowTest N symm = Inl e \<Longrightarrow> compare N windowTest windowReference symm fig = Inl e"
  by (simp add: compare_def)

text \<open>
  C9. For every length \<open>N\<close>, every flag and every pair of generators, \<^verbatim>\<open>compare\<close> calls
  both at the same \<open>(N, sym)\<close> and returns the pair of their results, the test sequence
  first. A generator is a callable that returns a sequence of \<open>N\<close> samples (the two
  hypotheses on the lengths; \<^verbatim>\<open>plt.plot\<close> needs them). The figure gains the two lines,
  the legend and the axis labels.
\<close>

theorem compare_returns_pair:
  assumes "windowTest N symm = Inr t" and "windowReference N symm = Inr r"
    and "length t = nat N" and "length r = nat N"
  shows "compare N windowTest windowReference symm fig =
           Inr ((t, r), fig\<lparr>lines := lines fig @ [(arange N, t), (arange N, r)],
                            legend := [''Test'', ''Reference''],
                            xlabel := ''$n$'', ylabel := ''w[n]''\<rparr>)"
  using assms by (simp add: compare_def plt_plot_def length_arange Let_def)

lemma boxcar_2: "boxcar 2 False = Inr [Fin 1, Fin 1]"
  by (simp add: boxcar_def np_ones_def numeral_2_eq_2)

lemma hann_2: "hann 2 False = Inr [Fin 0, Fin 1]"
  by (simp add: hann_def arange_2 additive_length_def fl_def minus_float64_def)

theorem compare_returns_pair_witness:
  "boxcar 2 False = Inr [Fin 1, Fin 1] \<and> hann 2 False = Inr [Fin 0, Fin 1] \<and>
   compare 2 boxcar hann False \<lparr>lines = [], legend = [], xlabel = [], ylabel = []\<rparr> =
     Inr (([Fin 1, Fin 1], [Fin 0, Fin 1]),
          \<lparr>lines = [([0, 1], [Fin 1, Fin 1]), ([0, 1], [Fin 0, Fin 1])],
           legend = [''Test'', ''Reference''], xlabel = ''$n$'', ylabel = ''w[n]''\<rparr>)"
  using compare_returns_pair [where windowTest = boxcar and windowReference = hann
      and N = 2 and symm = False and t = "[Fin 1, Fin 1]" and r = "[Fin 0, Fin 1]"
      and fig = "\<lparr>lines = [], legend = [], xlabel = [], ylabel = []\<rparr>"]
  by (simp add: boxcar_2 hann_2 arange_2)

subsection \<open>Calls that raise\<close>

text \<open>
  C1. For every generator and every integer \<open>N\<close> the returned sequence has length
  \<open>max(N, 0)\<close>, and for \<open>N \<le> 0\<close> the call returns the empty sequence. The code does not
  return at these inputs (each docstring promises an empty array for \<open>N\<close> zero or less):
  \<^verbatim>\<open>lanczos(0, sym=False)\<close> assigns to index 0 of an empty array, \<^verbatim>\<open>boxcar(-1)\<close> asks
  \<^verbatim>\<open>np.ones\<close> for a negative dimension, and \<^verbatim>\<open>bartlett(1, sym=True)\<close> divides the Python
  float 2.0 by the resolved length 0.
\<close>

theorem length_contract_broken:
  "lanczos 0 False = Inl IndexError \<and> boxcar (- 1) True = Inl ValueError \<and>
   bartlett 1 True = Inl ZeroDivisionError"
  by (simp add: lanczos_def setitem_def additive_length_def arange_nonpos boxcar_def
        np_ones_def bartlett_def)

text \<open>
  C5. For every generator, every integer \<open>N\<close> and any shape parameters (the defaults
  included) the call completes and returns a sequence, never raising. The code raises at
  these inputs: \<^verbatim>\<open>kaiserbessel(4)\<close> with its default \<^verbatim>\<open>sym=None\<close> subtracts \<^verbatim>\<open>None\<close> from an
  integer, \<^verbatim>\<open>boxcar\<close> and \<^verbatim>\<open>parzen\<close> allocate an array of negative length, \<^verbatim>\<open>bartlett(0)\<close>
  divides by the resolved length 0, and \<^verbatim>\<open>lanczos\<close> indexes an empty array.
\<close>

theorem generators_raise:
  "kaiserbessel 4 None = Inl TypeError \<and> boxcar (- 1) False = Inl ValueError \<and>
   parzen (- 1) True = Inl ValueError \<and> bartlett 0 False = Inl ZeroDivisionError \<and>
   lanczos (- 3) True = Inl IndexError"
  by (simp add: kaiserbessel_def boxcar_def np_ones_def parzen_def np_zeros_def bartlett_def
        lanczos_def setitem_def additive_length_def arange_nonpos)

subsection \<open>Symmetric and periodic mode\<close>

text \<open>
  C3. For every family and every \<open>N \<ge> 2\<close> the symmetric-mode output is a palindrome,
  \<open>w[n] = w[N - 1 - n]\<close>. The code's \<^verbatim>\<open>welch(2, sym=True)\<close> is \<open>[1.0, 0.0]\<close>: its centre
  \<open>(N - 1 - sym) / 2\<close> is the first sample, not the midpoint. Every intermediate value of
  this evaluation is a small integer, so rounding plays no part.
\<close>

theorem welch_symmetric_not_palindrome:
  "welch 2 True = Inr [Fin 1, Fin 0]"
  by (simp add: welch_def arange_2 b2i_def fl_def minus_float64_def numeral_2_eq_2)

text \<open>
  C2. For every family the periodic output of length \<open>N\<close> is the first \<open>N\<close> samples of the
  symmetric output of length \<open>N + 1\<close>. At \<open>N = 0\<close> the code's \<^verbatim>\<open>lanczos(0, sym=False)\<close>
  raises, while \<^verbatim>\<open>lanczos(1, sym=True)\<close> is \<open>[1.0]\<close>, whose first 0 samples are the empty
  sequence.
\<close>

theorem lanczos_periodic_empty_raises:
  "lanczos 0 False = Inl IndexError \<and> lanczos 1 True = Inr [Fin 1]"
  by (simp add: lanczos_def setitem_def additive_length_def arange_nonpos arange_1)

subsection \<open>Tukey with alpha = 0\<close>

text \<open>
  C6 as stated: \<^verbatim>\<open>tukey(N, False, alpha=0)\<close> is the all-ones sequence within tolerance.
  At \<open>N = 2\<close> the code returns \<open>[0.0, 1.0]\<close>, whose first sample is 1 away from 1.0.
\<close>

theorem tukey_alpha0_not_boxcar:
  "tukey 2 False (Fin 0) = Inr [Fin 0, Fin 1] \<and>
   \<not> list_all2 (isclose (1 / 10 ^ 9)) [Fin 0, Fin 1] [Fin 1, Fin 1]"
  by (simp add: tukey_def arange_2 additive_length_def masked_assign_def fl_def
        minus_float64_def isclose_def)

lemma tukey_alpha0_sample:
  "N \<noteq> 0 \<Longrightarrow>
   Fin 0.5 * (Fin 1 + fcos (Fin pi * (\<bar>fl i - Fin (real_of_int N / 2)\<bar> - Fin 0 * Fin (real_of_int N / 2))
                            / ((Fin 1 - Fin 0) * Fin (real_of_int N / 2))))
   = Fin (0.5 * (1 + cos (pi * \<bar>real_of_int i - real_of_int N / 2\<bar> / (real_of_int N / 2))))"
  by (simp add: fl_def minus_float64_def)

lemma masked_assign_never:
  "length n = length w \<Longrightarrow> (\<And>x. x \<in> set n \<Longrightarrow> \<not> msk x) \<Longrightarrow> masked_assign msk vals n w = w"
  unfolding masked_assign_def
  by (induction n w rule: list_induct2) simp_all

text \<open>With \<open>alpha = 0\<close> the mask \<^verbatim>\<open>abs(n - N) < alpha * N\<close> is empty, and the taper stands.\<close>

lemma tukey_alpha0_formula:
  assumes "1 \<le> N"
  shows "tukey N False (Fin 0) =
           Inr (map (\<lambda>i. Fin (0.5 * (1 + cos (pi * \<bar>real_of_int i - real_of_int N / 2\<bar>
                                                 / (real_of_int N / 2))))) (arange N))"
proof -
  have N0: "N \<noteq> 0" using assms by simp
  let ?M = "Fin (real_of_int N / 2)"
  let ?w = "map (\<lambda>i. Fin 0.5 * (Fin 1 + fcos (Fin pi * (\<bar>fl i - ?M\<bar> - Fin 0 * ?M)
                                                  / ((Fin 1 - Fin 0) * ?M)))) (arange N)"
  have "tukey N False (Fin 0) =
          Inr (masked_assign (\<lambda>x. \<bar>x - ?M\<bar> < Fin 0 * ?M) (\<lambda>x. Fin 1) (map fl (arange N)) ?w)"
    by (simp only: tukey_def Let_def additive_length_def if_False)
  also have "masked_assign (\<lambda>x. \<bar>x - ?M\<bar> < Fin 0 * ?M) (\<lambda>x. Fin 1) (map fl (arange N)) ?w = ?w"
    by (rule masked_assign_never) (auto simp add: fl_def minus_float64_def)
  also have "?w = map (\<lambda>i. Fin (0.5 * (1 + cos (pi * \<bar>real_of_int i - real_of_int N / 2\<bar>
                                                 / (real_of_int N / 2))))) (arange N)"
    by (simp only: tukey_alpha0_sample [OF N0])
  finally show ?thesis .
qed

text \<open>
  C6, amended. With \<open>alpha = 0\<close> the flat region of the Tukey window is empty (no sample
  has \<open>|n - N/2| < 0\<close>), so for every \<open>N \<ge> 1\<close> the call \<^verbatim>\<open>tukey(N, False, alpha=0)\<close>
  returns the raised-cosine taper \<open>0.5 * (1 + cos(pi * |n - N/2| / (N/2)))\<close> at every
  index; its first sample is 0.0, not 1.0.
\<close>

theorem tukey_alpha0_is_taper:
  assumes "1 \<le> N"
  shows "\<exists>w. tukey N False (Fin 0) = Inr w \<and> length w = nat N \<and> w ! 0 = Fin 0 \<and>
             w = map (\<lambda>i. Fin (0.5 * (1 + cos (pi * \<bar>real_of_int i - real_of_int N / 2\<bar>
                                                    / (real_of_int N / 2))))) (arange N)"
proof -
  have "0 < nat N" using assms by simp
  then show ?thesis
    using assms by (simp add: tukey_alpha0_formula length_arange arange_hd)
qed

theorem tukey_alpha0_is_taper_witness:
  "(1::int) \<le> 2 \<and> (\<exists>w. tukey 2 False (Fin 0) = Inr w \<and> length w = 2 \<and> w ! 0 = Fin 0)"
  using tukey_alpha0_is_taper [of 2] by auto

subsection \<open>A resolved length of zero\<close>

lemma single_point_periodic_a:
  "returns_finite (boxcar 1 False)" "returns_finite (bartlett 1 False)"
  "returns_finite (barthann 1 False)" "returns_finite (parzen 1 False)"
  "returns_finite (welch 1 False)" "returns_finite (cosine 1 False)"
  "returns_finite (bohman 1 False)" "returns_finite (lanczos 1 False)"
  by (simp_all add: returns_finite_def boxcar_def np_ones_def bartlett_def barthann_def
        parzen_def np_zeros_def welch_def cosine_def bohman_def lanczos_def setitem_def
        masked_assign_def b2i_def numeral_2_eq_2 numeral_3_eq_3
        arange_1 additive_length_def fl_def minus_float64_def)

lemma single_point_periodic_b:
  "returns_finite (hann 1 False)" "returns_finite (hamming 1 False)"
  "returns_finite (blackman 1 False)" "returns_finite (blackmanharris 1 False)"
  "returns_finite (blackmannuttall 1 False)" "returns_finite (kaiserbessel 1 (Some False))"
  "returns_finite (flattop 1 False)"
  by (simp_all add: returns_finite_def hann_def hamming_def blackman_def blackmanharris_def
        blackmannuttall_def kaiserbessel_def flattop_def b2i_def
        arange_1 additive_length_def fl_def minus_float64_def)

lemma single_point_periodic_c:
  "returns_finite (exponential 1 False (Fin 1))" "returns_finite (gaussian 1 False (Fin 0.25))"
  "returns_finite (hannpoisson 1 False (Fin 1))" "returns_finite (tukey 1 False (Fin 0.5))"
  by (simp_all add: returns_finite_def exponential_def gaussian_def hannpoisson_def tukey_def
        masked_assign_def numeral_2_eq_2 exp_nonpos_in_range
        arange_1 additive_length_def fl_def minus_float64_def)

text \<open>
  C7 as stated: under the additive form, \<open>N = 1\<close> with \<open>symmetric = False\<close> makes the
  resolved length 0 and the division non-finite, and \<open>N = 1\<close> in periodic mode divides by
  zero for several families. In the code the resolved length there is 1,
  \<^verbatim>\<open>hann(1, sym=False)\<close> is \<open>[0.0]\<close>, and every generator (the parametric ones with their
  default shape parameters) returns finite samples at \<open>N = 1\<close> in periodic mode.
\<close>

theorem single_point_periodic_is_finite:
  "additive_length 1 False \<noteq> 0 \<and> hann 1 False = Inr [Fin 0] \<and>
   returns_finite (boxcar 1 False) \<and> returns_finite (bartlett 1 False) \<and>
   returns_finite (barthann 1 False) \<and> returns_finite (parzen 1 False) \<and>
   returns_finite (welch 1 False) \<and> returns_finite (cosine 1 False) \<and>
   returns_finite (bohman 1 False) \<and> returns_finite (lanczos 1 False) \<and>
   returns_finite (hann 1 False) \<and> returns_finite (hamming 1 False) \<and>
   returns_finite (blackman 1 False) \<and> returns_finite (blackmanharris 1 False) \<and>
   returns_finite (blackmannuttall 1 False) \<and> returns_finite (kaiserbessel 1 (Some False)) \<and>
   returns_finite (flattop 1 False) \<and> returns_finite (exponential 1 False (Fin 1)) \<and>
   returns_finite (gaussian 1 False (Fin 0.25)) \<and> returns_finite (hannpoisson 1 False (Fin 1)) \<and>
   returns_finite (tukey 1 False (Fin 0.5))"
proof -
  have a: "additive_length 1 False \<noteq> 0"
    by (simp add: additive_length_def)
  have b: "hann 1 False = Inr [Fin 0]"
    by (simp add: hann_def arange_1 additive_length_def fl_def minus_float64_def)
  show ?thesis
    by (intro conjI a b single_point_periodic_a single_point_periodic_b
          single_point_periodic_c)
qed

lemma additive_length_zero:
  "(additive_length N symm = 0) = (N = 1 \<and> symm \<or> N = 0 \<and> \<not> symm)"
  by (auto simp add: additive_length_def)

lemma single_point_symmetric_a:
  "hann 1 True = Inr [NaN]" "hamming 1 True = Inr [NaN]" "blackman 1 True = Inr [NaN]"
  "blackmanharris 1 True = Inr [NaN]" "blackmannuttall 1 True = Inr [NaN]"
  "flattop 1 True = Inr [NaN]" "kaiserbessel 1 (Some True) = Inr [NaN]"
  "barthann 1 True = Inr [NaN]" "bohman 1 True = Inr [NaN]"
  by (simp_all add: hann_def hamming_def blackman_def blackmanharris_def blackmannuttall_def
        flattop_def kaiserbessel_def barthann_def bohman_def b2i_def
        arange_1 additive_length_def fl_def minus_float64_def)

lemma single_point_symmetric_b:
  "exponential 1 True alpha = Inr [NaN]" "gaussian 1 True std = Inr [NaN]"
  "hannpoisson 1 True alpha = Inr [NaN]" "tukey 1 True alpha = Inr [NaN]"
  by (cases alpha; cases std;
      simp add: exponential_def gaussian_def hannpoisson_def tukey_def
        masked_assign_def numeral_2_eq_2
        arange_1 additive_length_def fl_def minus_float64_def)+

text \<open>
  C7, amended. Under the additive form the resolved length is 0 exactly when \<open>N = 1\<close>
  with \<open>symmetric = True\<close>, or \<open>N = 0\<close> with \<open>symmetric = False\<close> (where there is no sample
  to divide: the Hann output is empty). At \<open>N = 1\<close>, \<open>symmetric = True\<close> the Hann
  evaluator divides 0 by 0 and returns the single non-finite sample NaN; similarly, at
  \<open>N = 1\<close> in symmetric mode Hamming, Blackman, Blackman-Harris, Blackman-Nuttall, Flattop,
  Kaiser-Bessel, Bartlett-Hann, Bohman and, for every shape parameter, Exponential,
  Gaussian, Hann-Poisson and Tukey divide by zero and return NaN.
\<close>

theorem zero_length_gives_nan:
  "(additive_length N symm = 0) = (N = 1 \<and> symm \<or> N = 0 \<and> \<not> symm) \<and>
   hann 0 False = Inr [] \<and> \<not> is_finite NaN \<and>
   hann 1 True = Inr [NaN] \<and> hamming 1 True = Inr [NaN] \<and> blackman 1 True = Inr [NaN] \<and>
   blackmanharris 1 True = Inr [NaN] \<and> blackmannuttall 1 True = Inr [NaN] \<and>
   flattop 1 True = Inr [NaN] \<and> kaiserbessel 1 (Some True) = Inr [NaN] \<and>
   barthann 1 True = Inr [NaN] \<and> bohman 1 True = Inr [NaN] \<and>
   exponential 1 True alpha = Inr [NaN] \<and> gaussian 1 True std = Inr [NaN] \<and>
   hannpoisson 1 True alpha = Inr [NaN] \<and> tukey 1 True alpha = Inr [NaN]"
proof -
  have a: "hann 0 False = Inr []"
    by (simp add: hann_def arange_nonpos)
  have b: "\<not> is_finite NaN"
    by simp
  show ?thesis
    by (intro conjI additive_length_zero a b single_point_symmetric_a single_point_symmetric_b)
qed

subsection \<open>What holds of the calls that return\<close>

lemma length_masked_assign:
  "length (masked_assign msk vals n w) = min (length n) (length w)"
  by (simp add: masked_assign_def)

lemma length_cosine_sums:
  "returns_length (hann N symm) N" "returns_length (hamming N symm) N"
  "returns_length (blackman N symm) N" "returns_length (blackmanharris N symm) N"
  "returns_length (blackmannuttall N symm) N" "returns_length (flattop N symm) N"
  "returns_length (kaiserbessel N osymm) N" "returns_length (barthann N symm) N"
  by (simp_all add: returns_length_def hann_def hamming_def blackman_def blackmanharris_def
        blackmannuttall_def flattop_def kaiserbessel_def barthann_def Let_def length_arange
        split: option.split)

lemma length_centred:
  "returns_length (bohman N symm) N" "returns_length (welch N symm) N"
  "returns_length (cosine N symm) N" "returns_length (exponential N symm alpha) N"
  "returns_length (gaussian N symm std) N" "returns_length (hannpoisson N symm alpha) N"
  "returns_length (tukey N symm alpha) N"
  by (simp_all add: returns_length_def bohman_def welch_def cosine_def exponential_def
        gaussian_def hannpoisson_def tukey_def Let_def length_arange length_masked_assign)

lemma length_raising:
  "returns_length (boxcar N symm) N" "returns_length (bartlett N symm) N"
  "returns_length (parzen N symm) N" "returns_length (lanczos N symm) N"
  by (simp_all add: returns_length_def boxcar_def np_ones_def bartlett_def parzen_def
        np_zeros_def lanczos_def setitem_def Let_def length_arange length_masked_assign)

text \<open>
  Every generator, at every length, flag and shape parameter: a call that returns,
  returns \<open>max(N, 0)\<close> samples.
\<close>

lemmas generators_length = length_raising length_cosine_sums length_centred

lemma first_n_arange: "first_n N (map f (arange (N + 1))) = map f (arange N)"
proof (cases "0 \<le> N")
  case True
  then show ?thesis
    by (simp add: first_n_def take_map arange_prefix)
next
  case False
  then show ?thesis
    by (simp add: first_n_def arange_nonpos)
qed

lemma first_n_arange_commuted: "first_n N (map f (arange (1 + N))) = map f (arange N)"
  using first_n_arange [of N f] by (simp only: add.commute [of 1 N])

lemma additive_length_step:
  "additive_length N False = N" "additive_length (N + 1) True = N"
  by (simp_all add: additive_length_def)

lemma take_replicate_Suc: "take n (replicate (Suc n) x) = replicate n x"
  by (simp only: take_replicate) simp

lemma take_masked_assign:
  "take k (masked_assign msk vals n w) = masked_assign msk vals (take k n) (take k w)"
  by (simp add: masked_assign_def take_map take_zip)

lemma prefix_cosine_sums:
  "periodic_is_prefix hann N" "periodic_is_prefix hamming N" "periodic_is_prefix blackman N"
  "periodic_is_prefix blackmanharris N" "periodic_is_prefix blackmannuttall N"
  "periodic_is_prefix flattop N" "periodic_is_prefix (\<lambda>N s. kaiserbessel N (Some s)) N"
  "periodic_is_prefix barthann N"
  by (simp_all add: periodic_is_prefix_def hann_def hamming_def blackman_def
        blackmanharris_def blackmannuttall_def flattop_def kaiserbessel_def barthann_def b2i_def
        Let_def additive_length_step first_n_arange)

lemma prefix_centred:
  "periodic_is_prefix bohman N" "periodic_is_prefix cosine N"
  "periodic_is_prefix (\<lambda>N s. exponential N s alpha) N"
  "periodic_is_prefix (\<lambda>N s. gaussian N s std) N"
  "periodic_is_prefix (\<lambda>N s. hannpoisson N s alpha) N"
  by (simp_all add: periodic_is_prefix_def bohman_def cosine_def exponential_def
        gaussian_def hannpoisson_def b2i_def Let_def additive_length_step first_n_arange)

lemma prefix_welch: "periodic_is_prefix welch N"
  by (simp add: periodic_is_prefix_def welch_def b2i_def Let_def add.commute
        first_n_arange_commuted)

lemma prefix_bartlett: "periodic_is_prefix bartlett N"
  by (simp add: periodic_is_prefix_def bartlett_def Let_def additive_length_step first_n_arange)

lemma prefix_boxcar: "periodic_is_prefix boxcar N"
proof (cases "N < 0")
  case True
  then show ?thesis
    by (simp add: periodic_is_prefix_def boxcar_def np_ones_def)
next
  case False
  then have "nat (N + 1) = Suc (nat N)" by simp
  with False show ?thesis
    by (simp add: periodic_is_prefix_def boxcar_def np_ones_def first_n_def
          take_replicate_Suc del: replicate_Suc)
qed

lemma prefix_tukey: "periodic_is_prefix (\<lambda>N s. tukey N s alpha) N"
proof (cases "0 \<le> N")
  case True
  then show ?thesis
    by (simp add: periodic_is_prefix_def tukey_def Let_def additive_length_step first_n_def
          take_masked_assign take_map arange_prefix)
next
  case False
  then show ?thesis
    by (simp add: periodic_is_prefix_def tukey_def Let_def additive_length_step first_n_def
          arange_nonpos masked_assign_def)
qed

lemma prefix_parzen: "periodic_is_prefix parzen N"
proof (cases "0 \<le> N")
  case True
  then have "nat (N + 1) = Suc (nat N)" by simp
  with True show ?thesis
    by (simp add: periodic_is_prefix_def parzen_def np_zeros_def Let_def b2i_def first_n_def
          take_masked_assign take_map arange_prefix take_replicate_Suc del: replicate_Suc)
next
  case False
  then show ?thesis
    by (simp add: periodic_is_prefix_def parzen_def np_zeros_def)
qed

lemma prefix_lanczos: "periodic_is_prefix lanczos N"
proof (cases "1 \<le> N")
  case True
  then have idx: "0 \<le> N div 2" "N div 2 < N" "N div 2 < N + 1"
    by simp_all
  with True show ?thesis
    by (simp add: periodic_is_prefix_def lanczos_def Let_def additive_length_step setitem_def
          length_arange first_n_def take_update_swap take_map arange_prefix)
next
  case False
  then have "N div 2 \<le> 0" by simp
  with False show ?thesis
    by (simp add: periodic_is_prefix_def lanczos_def Let_def additive_length_step setitem_def
          arange_nonpos)
qed

text \<open>
  Every generator, at every length and shape parameter: when the periodic call of length
  \<open>N\<close> returns, the symmetric call of length \<open>N + 1\<close> returns too, and the periodic
  result is its first \<open>N\<close> samples.
\<close>

lemmas periodic_prefix_of_symmetric =
  prefix_boxcar prefix_bartlett prefix_parzen prefix_welch prefix_lanczos
  prefix_cosine_sums prefix_centred prefix_tukey

end
